theory Spec2Isabelle
  imports Main
begin

section \<open>Python values the program handles\<close>

text \<open>
  The program is \<^verbatim>\<open>src/main.py\<close>: a Flask/SQLAlchemy store of characters and
  conversation turns, a chat function that posts a prompt to a remote model, and
  a few pure helpers. Strings are lists of characters; \<^verbatim>\<open>str.lower\<close> is
  modelled on the ASCII letters (all keywords of the program are ASCII). A value
  that may be \<^verbatim>\<open>None\<close> is an option. A caught exception is a value that
  carries its message, \<^verbatim>\<open>str(e)\<close>.
\<close>

datatype exn = Exn string

fun str_exn :: "exn \<Rightarrow> string" where
  "str_exn (Exn m) = m"

text \<open>\<^verbatim>\<open>f"{x}"\<close> of a string or of \<^verbatim>\<open>None\<close>.\<close>

definition py_str :: "string option \<Rightarrow> string" where
  "py_str x = (case x of None \<Rightarrow> ''None'' | Some s \<Rightarrow> s)"

text \<open>Truth value of a string or \<^verbatim>\<open>None\<close>: \<^verbatim>\<open>None\<close> and \<^verbatim>\<open>""\<close> are false.\<close>

definition truthy :: "string option \<Rightarrow> bool" where
  "truthy x = (case x of None \<Rightarrow> False | Some s \<Rightarrow> s \<noteq> [])"

text \<open>Decimal rendering of an integer, \<^verbatim>\<open>str(n)\<close>.\<close>

definition digit_char :: "nat \<Rightarrow> char" where
  "digit_char d = ''0123456789'' ! (d mod 10)"

function str_nat :: "nat \<Rightarrow> string" where
  "str_nat n = (if n < 10 then [digit_char n] else str_nat (n div 10) @ [digit_char n])"
  by pat_completeness auto
termination
  by (relation "measure id") auto

definition str_int :: "int \<Rightarrow> string" where
  "str_int i = (if i < 0 then CHR ''-'' # str_nat (nat (- i)) else str_nat (nat i))"

text \<open>
  \<^verbatim>\<open>str(uuid.uuid4())\<close>: the 128-bit value in 32 lower-case hexadecimal digits,
  grouped 8-4-4-4-12. The random draw itself is an input of the model.
\<close>

definition hex_digit :: "nat \<Rightarrow> char" where
  "hex_digit d = ''0123456789abcdef'' ! (d mod 16)"

fun hex_fixed :: "nat \<Rightarrow> nat \<Rightarrow> string" where
  "hex_fixed 0 n = []"
| "hex_fixed (Suc k) n = hex_fixed k (n div 16) @ [hex_digit n]"

definition str_uuid :: "nat \<Rightarrow> string" where
  "str_uuid u =
     (let h = hex_fixed 32 u
      in take 8 h @ ''-'' @ take 4 (drop 8 h) @ ''-'' @ take 4 (drop 12 h) @ ''-''
         @ take 4 (drop 16 h) @ ''-'' @ drop 20 h)"

text \<open>\<^verbatim>\<open>sep.join(xs)\<close>.\<close>

fun py_join :: "string \<Rightarrow> string list \<Rightarrow> string" where
  "py_join sep [] = []"
| "py_join sep [x] = x"
| "py_join sep (x # y # ys) = x @ sep @ py_join sep (y # ys)"

text \<open>\<^verbatim>\<open>s.lower()\<close> on ASCII, and \<^verbatim>\<open>k in s\<close> for strings (substring test).\<close>

definition lower_char :: "char \<Rightarrow> char" where
  "lower_char c =
     (case map_of (zip ''ABCDEFGHIJKLMNOPQRSTUVWXYZ'' ''abcdefghijklmnopqrstuvwxyz'') c of
        None \<Rightarrow> c
      | Some l \<Rightarrow> l)"

definition lower :: "string \<Rightarrow> string" where
  "lower s = map lower_char s"

fun starts_with :: "string \<Rightarrow> string \<Rightarrow> bool" where
  "starts_with [] s = True"
| "starts_with (k # ks) [] = False"
| "starts_with (k # ks) (c # s) = (k = c \<and> starts_with ks s)"

fun py_in :: "string \<Rightarrow> string \<Rightarrow> bool" where
  "py_in k [] = (k = [])"
| "py_in k (c # s) = (starts_with k (c # s) \<or> py_in k s)"

section \<open>The database models (lines 33-48)\<close>

text \<open>
  \<^verbatim>\<open>Character\<close> and \<^verbatim>\<open>Conversation\<close>. The nullable columns
  \<^verbatim>\<open>user_input\<close> and \<^verbatim>\<open>chat_id\<close> are options. Primary keys and the
  time stamp are natural numbers; the time stamp always has a value, the column
  default being applied to every row the program inserts.
\<close>

record character =
  char_id :: nat
  name :: string
  description :: string
  prompt_template :: string

record conversation =
  conv_id :: nat
  character_id :: nat
  user_input :: "string option"
  bot_response :: string
  timestamp :: nat
  chat_id :: "string option"
  user_id :: int

text \<open>
  The state the functions read and change: the two tables in insertion order,
  and the texts handed to \<^verbatim>\<open>requests.post\<close> so far. Exceptions of the
  database driver are not part of this model: a query or commit on the tables
  always succeeds.
\<close>

record world =
  characters :: "character list"
  conversations :: "conversation list"
  posted :: "string list"

text \<open>The key a new row gets: one more than the largest key of the table.\<close>

definition new_id :: "nat list \<Rightarrow> nat" where
  "new_id ids = Suc (fold max ids 0)"

text \<open>\<^verbatim>\<open>Character.query.filter_by(name=n).first()\<close>.\<close>

definition character_by_name :: "world \<Rightarrow> string \<Rightarrow> character option" where
  "character_by_name w n = find (\<lambda>c. name c = n) (characters w)"

text \<open>
  \<^verbatim>\<open>Conversation.query.filter_by(user_id=u, chat_id=c).order_by(Conversation.timestamp).all()\<close>.
  Rows with equal time stamps stay in insertion order (SQL leaves that order open).
\<close>

definition session_turns :: "world \<Rightarrow> int \<Rightarrow> string option \<Rightarrow> conversation list" where
  "session_turns w u c =
     sort_key timestamp (filter (\<lambda>t. user_id t = u \<and> chat_id t = c) (conversations w))"

text \<open>
  Lines 141-145: the rows of a user and a character, newest first, at most ten,
  then reversed.
\<close>

definition recent_turns :: "world \<Rightarrow> int \<Rightarrow> nat \<Rightarrow> conversation list" where
  "recent_turns w u k =
     rev (take 10 (rev (sort_key timestamp
       (filter (\<lambda>t. user_id t = u \<and> character_id t = k) (conversations w)))))"

section \<open>Adding a character (lines 91-110)\<close>

definition add_character :: "world \<Rightarrow> string \<Rightarrow> string \<Rightarrow> string \<Rightarrow> string \<times> world" where
  "add_character w n d p =
     (case character_by_name w n of
        Some c \<Rightarrow> (''Character '' @ [CHR 0x27] @ n @ [CHR 0x27] @ '' already exists!'', w)
      | None \<Rightarrow>
          (''Character '' @ [CHR 0x27] @ n @ [CHR 0x27] @ '' added successfully!''
             @ [CHR 0x0A] @ ''Description: '' @ d,
           w\<lparr>characters := characters w @
               [\<lparr>char_id = new_id (map char_id (characters w)), name = n,
                 description = d, prompt_template = p\<rparr>]\<rparr>))"

section \<open>Character auto-selection (lines 278-292)\<close>

definition education_keywords :: "string list" where
  "education_keywords =
     [''learn'', ''study'', ''education'', ''knowledge'', ''science'', ''history'',
      ''math'', ''theory'', ''research'']"

definition entertainment_keywords :: "string list" where
  "entertainment_keywords =
     [''joke'', ''funny'', ''laugh'', ''entertain'', ''comedy'', ''silly'']"

definition adventure_keywords :: "string list" where
  "adventure_keywords =
     [''adventure'', ''sea'', ''pirate'', ''treasure'', ''sail'', ''voyage'']"

definition auto_select_character :: "string \<Rightarrow> string option" where
  "auto_select_character s =
     (let user_text = lower s
      in if list_ex (\<lambda>keyword. py_in keyword user_text) education_keywords
           then Some ''Professor Sage''
         else if list_ex (\<lambda>keyword. py_in keyword user_text) entertainment_keywords
           then Some ''Chuck the Clown''
         else if list_ex (\<lambda>keyword. py_in keyword user_text) adventure_keywords
           then Some ''Sarcastic Pirate''
         else None)"

section \<open>The remote model, as the chat function sees it (lines 161-171)\<close>

text \<open>
  \<^verbatim>\<open>requests.post\<close> either raises or returns a response with a status code,
  its raw text, and a body that \<^verbatim>\<open>response.json()\<close> decodes. The decoded
  document is classified by what lines 170-171 do with it:
  \<^item> \<open>Not_json e\<close>: \<^verbatim>\<open>response.json()\<close> raises \<open>e\<close>;
  \<^item> \<open>Json_raises e\<close>: the test
    \<^verbatim>\<open>'candidates' in response_data and len(response_data['candidates']) > 0\<close>
    raises \<open>e\<close> (the document is not a container, or the entry has no length);
  \<^item> \<open>No_candidates\<close>: \<^verbatim>\<open>'candidates' in response_data\<close> is false;
  \<^item> \<open>Candidates cs\<close>: the entry is a sequence \<open>cs\<close>; reading
    \<^verbatim>\<open>['content']['parts'][0]['text']\<close> of a candidate gives its text or raises.
\<close>

datatype candidate = Text string | Malformed exn

datatype body = Not_json exn | Json_raises exn | No_candidates | Candidates "candidate list"

record response =
  status_code :: int
  resp_text :: string
  json :: body

datatype post_result = Raises exn | Response response

text \<open>
  What one call of the chat function takes from outside: the UUID drawn by
  \<^verbatim>\<open>uuid.uuid4()\<close>, the clock value the column default stores, and the
  answer of \<^verbatim>\<open>requests.post\<close> to a prompt.
\<close>

record env =
  uuid4 :: nat
  utcnow :: nat
  requests_post :: "string \<Rightarrow> post_result"

text \<open>Lines 169-171 and 184: the text of the first candidate, none, or an exception.\<close>

fun first_candidate_text :: "body \<Rightarrow> exn + string option" where
  "first_candidate_text (Not_json e) = Inl e"
| "first_candidate_text (Json_raises e) = Inl e"
| "first_candidate_text No_candidates = Inr None"
| "first_candidate_text (Candidates []) = Inr None"
| "first_candidate_text (Candidates (Malformed e # cs)) = Inl e"
| "first_candidate_text (Candidates (Text t # cs)) = Inr (Some t)"

text \<open>Line 187 logs \<^verbatim>\<open>response.json()\<close>, which raises when the body is not JSON.\<close>

fun logged_json :: "body \<Rightarrow> exn option" where
  "logged_json (Not_json e) = Some e"
| "logged_json b = None"

section \<open>The chat function (lines 121-192)\<close>

text \<open>Lines 129-130: a missing or empty \<^verbatim>\<open>chat_id\<close> is replaced by a new UUID.\<close>

definition minted_chat_id :: "env \<Rightarrow> string option \<Rightarrow> string" where
  "minted_chat_id e c = (if \<not> truthy c then str_uuid (uuid4 e) else py_str c)"

text \<open>
  Lines 133-145: the earlier turns. The test \<^verbatim>\<open>if chat_id:\<close> reads the
  variable after line 130 has assigned it.
\<close>

definition previous_conversations :: "world \<Rightarrow> int \<Rightarrow> character \<Rightarrow> string \<Rightarrow> conversation list" where
  "previous_conversations w u ch c =
     (if c \<noteq> [] then session_turns w u (Some c) else recent_turns w u (char_id ch))"

text \<open>Lines 147-149.\<close>

definition context_prompt :: "conversation list \<Rightarrow> string" where
  "context_prompt convs =
     py_join '' ''
       (map (\<lambda>conv. ''User: '' @ py_str (user_input conv) @ [CHR 0x0A] @ ''Bot: '' @ bot_response conv)
          convs)"

definition full_prompt :: "character \<Rightarrow> conversation list \<Rightarrow> string option \<Rightarrow> string" where
  "full_prompt ch convs inp =
     prompt_template ch @ [CHR 0x0A] @ context_prompt convs @ [CHR 0x0A] @ ''User: ''
       @ py_str inp @ [CHR 0x0A] @ ''Bot:''"

text \<open>Lines 173-181: the new row.\<close>

definition save_conversation ::
  "env \<Rightarrow> world \<Rightarrow> character \<Rightarrow> string option \<Rightarrow> string \<Rightarrow> string \<Rightarrow> int \<Rightarrow> world" where
  "save_conversation e w ch inp reply c u =
     w\<lparr>conversations := conversations w @
         [\<lparr>conv_id = new_id (map conv_id (conversations w)), character_id = char_id ch,
           user_input = inp, bot_response = reply, timestamp = utcnow e,
           chat_id = Some c, user_id = u\<rparr>]\<rparr>"

text \<open>
  Lines 132-188, the part of the \<^verbatim>\<open>try\<close> block after the character is found
  and the chat id is fixed: a returned pair, or the exception that leaves the block.
\<close>

definition generate ::
  "env \<Rightarrow> world \<Rightarrow> character \<Rightarrow> string option \<Rightarrow> int \<Rightarrow> string
     \<Rightarrow> (exn + string \<times> string option) \<times> world" where
  "generate e w ch inp u c =
     (let prompt = full_prompt ch (previous_conversations w u ch c) inp;
          w1 = w\<lparr>posted := posted w @ [prompt]\<rparr>
      in case requests_post e prompt of
           Raises x \<Rightarrow> (Inl x, w1)
         | Response r \<Rightarrow>
             if status_code r = 200 then
               (case first_candidate_text (json r) of
                  Inl x \<Rightarrow> (Inl x, w1)
                | Inr None \<Rightarrow>
                    (Inr (''An error occurred while generating content: Unexpected response format.'',
                          Some c), w1)
                | Inr (Some reply) \<Rightarrow>
                    (Inr (reply, Some c), save_conversation e w1 ch inp reply c u))
             else
               (case logged_json (json r) of
                  Some x \<Rightarrow> (Inl x, w1)
                | None \<Rightarrow>
                    (Inr (''An error occurred while generating content: ''
                            @ str_int (status_code r) @ '' - '' @ resp_text r,
                          Some c), w1)))"

text \<open>
  The whole function: line 127 returns before a chat id is made; the handler
  of lines 190-192 turns an exception into a message and the current chat id.
\<close>

definition chat_with_character ::
  "env \<Rightarrow> world \<Rightarrow> string \<Rightarrow> string option \<Rightarrow> int \<Rightarrow> string option
     \<Rightarrow> (string \<times> string option) \<times> world" where
  "chat_with_character e w character_name inp u c =
     (case character_by_name w character_name of
        None \<Rightarrow> ((''Character not found.'', None), w)
      | Some ch \<Rightarrow>
          (let c1 = minted_chat_id e c
           in case generate e w ch inp u c1 of
                (Inl x, w1) \<Rightarrow> ((''An unexpected error occurred: '' @ str_exn x, Some c1), w1)
              | (Inr res, w1) \<Rightarrow> (res, w1)))"

section \<open>The chat history (lines 235-266)\<close>

text \<open>
  The grouped query of lines 239-245. Rows of the user are joined with their
  character (rows without one drop out of the inner join), grouped by
  \<^verbatim>\<open>chat_id\<close>, and each group yields its chat id, the smallest time stamp,
  and the character name of the row that holds that smallest time stamp, as
  SQLite fills a bare column beside \<^verbatim>\<open>min\<close>. Groups come newest first.
\<close>

definition joined_rows :: "world \<Rightarrow> int \<Rightarrow> (conversation \<times> character) list" where
  "joined_rows w u =
     List.map_filter
       (\<lambda>t. map_option (\<lambda>ch. (t, ch)) (find (\<lambda>ch. char_id ch = character_id t) (characters w)))
       (filter (\<lambda>t. user_id t = u) (conversations w))"

definition group_row :: "(conversation \<times> character) list \<Rightarrow> string option
    \<Rightarrow> (string option \<times> string \<times> nat) option" where
  "group_row rows g =
     (case sort_key (\<lambda>(t, ch). timestamp t) (filter (\<lambda>(t, ch). chat_id t = g) rows) of
        [] \<Rightarrow> None
      | (t, ch) # rest \<Rightarrow> Some (g, name ch, timestamp t))"

definition chat_sessions :: "world \<Rightarrow> int \<Rightarrow> (string option \<times> string \<times> nat) list" where
  "chat_sessions w u =
     (let rows = joined_rows w u
      in rev (sort_key (\<lambda>(g, n, start_time). start_time)
           (List.map_filter (group_row rows) (remdups (map (\<lambda>(t, ch). chat_id t) rows)))))"

text \<open>Lines 250-253: the earliest row of the session.\<close>

definition first_message :: "world \<Rightarrow> int \<Rightarrow> string option \<Rightarrow> conversation option" where
  "first_message w u g = (case session_turns w u g of [] \<Rightarrow> None | m # rest \<Rightarrow> Some m)"

text \<open>
  Line 263. \<^verbatim>\<open>len\<close> of \<^verbatim>\<open>None\<close> raises \<^verbatim>\<open>TypeError\<close>.
\<close>

definition preview :: "string option \<Rightarrow> exn + string" where
  "preview inp =
     (case inp of
        None \<Rightarrow> Inl (Exn ''object of type 'NoneType' has no len()'')
      | Some s \<Rightarrow> Inr (if length s > 30 then take 30 s @ ''...'' else s))"

text \<open>
  Lines 247-266: the loop over the sessions. \<open>fmt\<close> stands for
  \<^verbatim>\<open>strftime("%Y-%m-%d %H:%M:%S")\<close>. An exception ends the function.
\<close>

type_synonym history_entry = "string option \<times> string \<times> string \<times> string \<times> nat"

fun history_loop ::
  "(nat \<Rightarrow> string) \<Rightarrow> world \<Rightarrow> int \<Rightarrow> (string option \<times> string \<times> nat) list
     \<Rightarrow> exn + history_entry list" where
  "history_loop fmt w u [] = Inr []"
| "history_loop fmt w u ((g, character_name, start_time) # rest) =
     (case first_message w u g of
        None \<Rightarrow> history_loop fmt w u rest
      | Some m \<Rightarrow>
          (let message_count = length (session_turns w u g);
               formatted_date = fmt start_time
           in case preview (user_input m) of
                Inl x \<Rightarrow> Inl x
              | Inr pv \<Rightarrow>
                  (case history_loop fmt w u rest of
                     Inl x \<Rightarrow> Inl x
                   | Inr es \<Rightarrow> Inr ((g, character_name, pv, formatted_date, message_count) # es))))"

definition get_chat_history :: "(nat \<Rightarrow> string) \<Rightarrow> world \<Rightarrow> int \<Rightarrow> exn + history_entry list" where
  "get_chat_history fmt w u = history_loop fmt w u (chat_sessions w u)"

section \<open>The statements of the specification, as definitions\<close>

text \<open>
  Section 4.4 of the specification: a keyword set matches an input when one of
  its keywords occurs in the lower-cased input.
\<close>

definition spec_matches :: "string list \<Rightarrow> string \<Rightarrow> bool" where
  "spec_matches ks s = (\<exists>k \<in> set ks. \<exists>p q. lower s = p @ k @ q)"

text \<open>
  Section 4.3, step 4: the prompt is the template, a line break, the earlier
  turns each written \<^verbatim>\<open>User: {u}\nBot: {b}\<close> and joined by single spaces, and
  the new input between \<^verbatim>\<open>\nUser: \<close> and \<^verbatim>\<open>\nBot:\<close>.
\<close>

definition spec_turn_text :: "conversation \<Rightarrow> string" where
  "spec_turn_text t =
     ''User: '' @ py_str (user_input t) @ [CHR 0x0A] @ ''Bot: '' @ bot_response t"

fun spec_space_joined :: "string list \<Rightarrow> string" where
  "spec_space_joined [] = []"
| "spec_space_joined (x # xs) = x @ concat (map (\<lambda>y. CHR '' '' # y) xs)"

definition spec_prompt :: "string \<Rightarrow> conversation list \<Rightarrow> string option \<Rightarrow> string" where
  "spec_prompt template turns new_input =
     template @ [CHR 0x0A] @ spec_space_joined (map spec_turn_text turns)
       @ [CHR 0x0A] @ ''User: '' @ py_str new_input @ [CHR 0x0A] @ ''Bot:''"

text \<open>
  Section 4.2: the preview is the input, cut to 30 characters and followed by
  an ellipsis when it is longer.
\<close>

definition preview_text :: "string \<Rightarrow> string" where
  "preview_text s = (if length s \<le> 30 then s else take 30 s @ ''...'')"

text \<open>
  Section 4.2 on the sessions of a user: the turns of the user, the distinct
  session identifiers among them, the start of a session (the time stamp of its
  earliest turn), the character a turn refers to, and the entry the
  specification describes for a session.
\<close>

definition user_turns :: "world \<Rightarrow> int \<Rightarrow> conversation list" where
  "user_turns w u = filter (\<lambda>t. user_id t = u) (conversations w)"

definition session_ids :: "world \<Rightarrow> int \<Rightarrow> string option list" where
  "session_ids w u = remdups (map chat_id (user_turns w u))"

definition session_start :: "world \<Rightarrow> int \<Rightarrow> string option \<Rightarrow> nat" where
  "session_start w u g = (case first_message w u g of None \<Rightarrow> 0 | Some m \<Rightarrow> timestamp m)"

definition persona_of :: "world \<Rightarrow> conversation \<Rightarrow> character option" where
  "persona_of w t = find (\<lambda>ch. char_id ch = character_id t) (characters w)"

definition session_entry ::
  "(nat \<Rightarrow> string) \<Rightarrow> world \<Rightarrow> int \<Rightarrow> string option \<Rightarrow> history_entry option" where
  "session_entry fmt w u g =
     (case first_message w u g of
        None \<Rightarrow> None
      | Some m \<Rightarrow>
          (case persona_of w m of
             None \<Rightarrow> None
           | Some ch \<Rightarrow>
               (case user_input m of
                  None \<Rightarrow> None
                | Some s \<Rightarrow>
                    Some (g, name ch, preview_text s, fmt (timestamp m),
                          length (session_turns w u g)))))"

text \<open>
  The foreign key of line 43: every turn refers to a stored character. The
  chat function keeps it, and no function of the program deletes a character.
\<close>

definition references_intact :: "world \<Rightarrow> bool" where
  "references_intact w = list_all (\<lambda>t. persona_of w t \<noteq> None) (conversations w)"

text \<open>The row the grouped query yields for a session when the references are intact.\<close>

definition session_row :: "world \<Rightarrow> int \<Rightarrow> string option \<Rightarrow> string option \<times> string \<times> nat" where
  "session_row w u g =
     (g, (case first_message w u g of None \<Rightarrow> [] | Some m \<Rightarrow> name (the (persona_of w m))),
      session_start w u g)"

section \<open>Example stores and gateways\<close>

definition chuck :: character where
  "chuck = \<lparr>char_id = 1, name = ''Chuck the Clown'',
             description = ''A funny clown who tells jokes and entertains.'',
             prompt_template = ''You are Chuck the Clown.''\<rparr>"

definition pirate :: character where
  "pirate = \<lparr>char_id = 2, name = ''Sarcastic Pirate'',
              description = ''A pirate with a sharp tongue and a love for treasure.'',
              prompt_template = ''You are a Sarcastic Pirate.''\<rparr>"

text \<open>One user, two sessions: \<open>s1\<close> with two turns, \<open>s2\<close> with one long first input.\<close>

definition history_world :: world where
  "history_world =
     \<lparr>characters = [chuck, pirate],
      conversations =
        [\<lparr>conv_id = 1, character_id = 1, user_input = Some ''tell me a joke'',
          bot_response = ''Why did the chicken cross the road?'', timestamp = 10,
          chat_id = Some ''s1'', user_id = 1\<rparr>,
         \<lparr>conv_id = 2, character_id = 2,
          user_input = Some ''where is the treasure buried on the island?'',
          bot_response = ''Arr!'', timestamp = 15, chat_id = Some ''s2'', user_id = 1\<rparr>,
         \<lparr>conv_id = 3, character_id = 1, user_input = Some ''another one'',
          bot_response = ''Honk!'', timestamp = 20, chat_id = Some ''s1'', user_id = 1\<rparr>],
      posted = []\<rparr>"

text \<open>Fifteen earlier turns of user 1 with one character.\<close>

definition earlier_turn :: "nat \<Rightarrow> conversation" where
  "earlier_turn i =
     \<lparr>conv_id = i, character_id = 1, user_input = Some (''question '' @ str_nat i),
      bot_response = ''answer '' @ str_nat i, timestamp = i,
      chat_id = Some ''earlier-session'', user_id = 1\<rparr>"

definition fifteen_turns :: world where
  "fifteen_turns =
     \<lparr>characters = [chuck], conversations = map earlier_turn [1..<16], posted = []\<rparr>"

text \<open>A gateway that gives the same answer to every prompt.\<close>

definition fixed_env :: "post_result \<Rightarrow> env" where
  "fixed_env r = \<lparr>uuid4 = 7, utcnow = 100, requests_post = (\<lambda>prompt. r)\<rparr>"

definition server_error :: post_result where
  "server_error =
     Response \<lparr>status_code = 500, resp_text = ''Internal Server Error'', json = No_candidates\<rparr>"

definition one_candidate :: post_result where
  "one_candidate =
     Response \<lparr>status_code = 200, resp_text = ''{}'', json = Candidates [Text ''Honk!'']\<rparr>"

text \<open>
  The store after user 2 has sent \<^verbatim>\<open>None\<close> as input to the chat function
  and the gateway has answered: the new session starts with a turn whose
  \<^verbatim>\<open>user_input\<close> is null.
\<close>

definition silent_world :: world where
  "silent_world =
     snd (chat_with_character (fixed_env one_candidate) history_world
            ''Chuck the Clown'' None 2 None)"

section \<open>Auto-selection\<close>

lemma starts_with_iff: "starts_with k s \<longleftrightarrow> (\<exists>q. s = k @ q)"
  by (induction k s rule: starts_with.induct) auto

lemma py_in_iff: "py_in k s \<longleftrightarrow> (\<exists>p q. s = p @ k @ q)"
proof (induction s)
  case Nil
  then show ?case by auto
next
  case (Cons c s)
  show ?case
  proof
    assume "py_in k (c # s)"
    then consider "starts_with k (c # s)" | "py_in k s" by auto
    then show "\<exists>p q. c # s = p @ k @ q"
    proof cases
      case 1
      then obtain q where "c # s = k @ q" using starts_with_iff by blast
      then have "c # s = [] @ k @ q" by simp
      then show ?thesis by blast
    next
      case 2
      then obtain p q where "s = p @ k @ q" using Cons.IH by blast
      then have "c # s = (c # p) @ k @ q" by simp
      then show ?thesis by blast
    qed
  next
    assume "\<exists>p q. c # s = p @ k @ q"
    then obtain p q where pq: "c # s = p @ k @ q" by blast
    show "py_in k (c # s)"
    proof (cases p)
      case Nil
      then have "starts_with k (c # s)" using pq starts_with_iff by auto
      then show ?thesis by simp
    next
      case (Cons a p')
      then have "s = p' @ k @ q" using pq by simp
      then have "py_in k s" using Cons.IH by blast
      then show ?thesis by simp
    qed
  qed
qed

lemma py_in_middle: "py_in k (p @ k @ q)"
  using py_in_iff by blast

lemma list_ex_py_in: "list_ex (\<lambda>k. py_in k (lower s)) ks = spec_matches ks s"
  by (simp add: list_ex_iff spec_matches_def py_in_iff)

lemma lower_char_idem: "lower_char (lower_char c) = lower_char c"
  by (simp add: lower_char_def)

lemma lower_idem: "lower (lower s) = lower s"
  by (simp add: lower_def lower_char_idem)

text \<open>
  C7. For every input string, the selection lower-cases the input, tests the
  education, the entertainment and the adventure keywords in that order, and
  returns the character of the first set one of whose keywords occurs in the
  lower-cased input: Professor Sage, Chuck the Clown, Sarcastic Pirate; with no
  match it returns \<^verbatim>\<open>None\<close>. The result is a function of the input alone, so
  the case of the letters of the input does not matter.
\<close>

theorem auto_select_character_priority:
  "auto_select_character s =
     (if spec_matches education_keywords s then Some ''Professor Sage''
      else if spec_matches entertainment_keywords s then Some ''Chuck the Clown''
      else if spec_matches adventure_keywords s then Some ''Sarcastic Pirate''
      else None)
   \<and> auto_select_character (lower s) = auto_select_character s"
  by (simp add: auto_select_character_def Let_def list_ex_py_in lower_idem)

lemma auto_select_examples:
  "auto_select_character ''Tell me a JOKE about the sea'' = Some ''Chuck the Clown''"
  "auto_select_character ''research at sea'' = Some ''Professor Sage''"
  "auto_select_character ''What a season!'' = Some ''Sarcastic Pirate''"
  "auto_select_character ''hello'' = None"
  by code_simp+

section \<open>Adding a character\<close>

lemma character_by_name_None:
  "n \<notin> set (map name (characters w)) \<Longrightarrow> character_by_name w n = None"
  by (auto simp: character_by_name_def find_None_iff)

lemma fold_max_ge: "a \<le> fold max ids (a::nat)"
  by (induction ids arbitrary: a) (auto intro: order_trans[OF max.cobounded2])

lemma fold_max_mem: "x \<in> set ids \<Longrightarrow> x \<le> fold max ids (a::nat)"
proof (induction ids arbitrary: a)
  case (Cons y ys)
  then show ?case
    by (auto intro: order_trans[OF max.cobounded1 fold_max_ge])
qed simp

lemma new_id_fresh: "new_id ids \<notin> set ids"
  using fold_max_mem[of "new_id ids" ids 0] by (auto simp: new_id_def)

text \<open>
  C8. For a name already in the store, adding a character returns the
  already-exists message and leaves the store as it is. For a name not in the
  store it appends exactly one character with that name, the given description
  and template, and a key no stored character has; afterwards exactly one
  character has the name. Names that were pairwise distinct stay so.
\<close>

theorem add_character_unique:
  "(n \<in> set (map name (characters w)) \<longrightarrow>
      add_character w n d p =
        (''Character '' @ [CHR 0x27] @ n @ [CHR 0x27] @ '' already exists!'', w))
   \<and> (n \<notin> set (map name (characters w)) \<longrightarrow>
        (\<exists>c. snd (add_character w n d p) = w\<lparr>characters := characters w @ [c]\<rparr>
           \<and> name c = n \<and> description c = d \<and> prompt_template c = p
           \<and> char_id c \<notin> set (map char_id (characters w))
           \<and> length (filter (\<lambda>x. name x = n) (characters (snd (add_character w n d p)))) = 1))
   \<and> (distinct (map name (characters w)) \<longrightarrow>
        distinct (map name (characters (snd (add_character w n d p)))))"
proof (intro conjI impI)
  assume "n \<in> set (map name (characters w))"
  then obtain c where "character_by_name w n = Some c"
    by (cases "character_by_name w n") (auto simp: character_by_name_def find_None_iff)
  then show "add_character w n d p =
      (''Character '' @ [CHR 0x27] @ n @ [CHR 0x27] @ '' already exists!'', w)"
    by (simp add: add_character_def)
next
  assume absent: "n \<notin> set (map name (characters w))"
  then have none: "character_by_name w n = None" by (rule character_by_name_None)
  have "filter (\<lambda>x. name x = n) (characters w) = []"
    using absent by (auto simp: filter_empty_conv)
  then show "\<exists>c. snd (add_character w n d p) = w\<lparr>characters := characters w @ [c]\<rparr>
           \<and> name c = n \<and> description c = d \<and> prompt_template c = p
           \<and> char_id c \<notin> set (map char_id (characters w))
           \<and> length (filter (\<lambda>x. name x = n) (characters (snd (add_character w n d p)))) = 1"
    using none new_id_fresh[of "map char_id (characters w)"]
    by (intro exI[of _ "\<lparr>char_id = new_id (map char_id (characters w)), name = n,
                 description = d, prompt_template = p\<rparr>"])
       (simp add: add_character_def)
next
  assume dist: "distinct (map name (characters w))"
  show "distinct (map name (characters (snd (add_character w n d p))))"
  proof (cases "character_by_name w n")
    case None
    then have "n \<notin> set (map name (characters w))"
      by (auto simp: character_by_name_def find_None_iff)
    then show ?thesis using None dist by (simp add: add_character_def)
  next
    case (Some c)
    then show ?thesis using dist by (simp add: add_character_def)
  qed
qed

theorem add_character_unique_witness:
  "''Chuck the Clown'' \<in> set (map name (characters history_world))
   \<and> add_character history_world ''Chuck the Clown'' ''An impostor.'' ''You are an impostor.'' =
       (''Character '' @ [CHR 0x27] @ ''Chuck the Clown'' @ [CHR 0x27] @ '' already exists!'',
        history_world)
   \<and> ''Professor Sage'' \<notin> set (map name (characters history_world))
   \<and> distinct (map name (characters history_world))
   \<and> map name (characters (snd (add_character history_world ''Professor Sage''
           ''A wise professor.'' ''You are Professor Sage.''))) =
       [''Chuck the Clown'', ''Sarcastic Pirate'', ''Professor Sage'']"
proof -
  have present: "''Chuck the Clown'' \<in> set (map name (characters history_world))"
    by (simp add: history_world_def chuck_def pirate_def)
  have absent: "''Professor Sage'' \<notin> set (map name (characters history_world))"
    by (simp add: history_world_def chuck_def pirate_def)
  have dist: "distinct (map name (characters history_world))"
    by (simp add: history_world_def chuck_def pirate_def)
  have added: "map name (characters (snd (add_character history_world ''Professor Sage''
           ''A wise professor.'' ''You are Professor Sage.''))) =
       [''Chuck the Clown'', ''Sarcastic Pirate'', ''Professor Sage'']"
    by code_simp
  show ?thesis
    using present absent dist added
      add_character_unique[of "''Chuck the Clown''" history_world
        "''An impostor.''" "''You are an impostor.''"]
      add_character_unique[of "''Professor Sage''" history_world
        "''A wise professor.''" "''You are Professor Sage.''"]
    by simp
qed

section \<open>The chat function\<close>

lemma minted_supplied: "c \<noteq> [] \<Longrightarrow> minted_chat_id e (Some c) = c"
  by (simp add: minted_chat_id_def truthy_def py_str_def)

lemma str_uuid_nonempty: "str_uuid n \<noteq> []"
  by (simp add: str_uuid_def Let_def)

lemma minted_nonempty: "minted_chat_id e c \<noteq> []"
  by (auto simp: minted_chat_id_def truthy_def py_str_def str_uuid_nonempty split: option.splits)

text \<open>
  Whatever the caller passes, the test of line 134 succeeds: the earlier turns
  are always those of the session named by the chat id in force, and lines
  141-145 are never reached.
\<close>

lemma previous_is_session:
  "previous_conversations w u ch (minted_chat_id e c) =
     session_turns w u (Some (minted_chat_id e c))"
  by (simp add: previous_conversations_def minted_nonempty)

lemma previous_without_session:
  assumes "\<not> truthy c"
    and "\<forall>t \<in> set (conversations w). chat_id t \<noteq> Some (str_uuid (uuid4 e))"
  shows "previous_conversations w u ch (minted_chat_id e c) = []"
proof -
  have "filter (\<lambda>t. user_id t = u \<and> chat_id t = Some (str_uuid (uuid4 e))) (conversations w) = []"
    using assms(2) by (auto simp: filter_empty_conv)
  moreover have "minted_chat_id e c = str_uuid (uuid4 e)"
    using assms(1) by (simp add: minted_chat_id_def)
  ultimately show ?thesis
    using previous_is_session[of w u ch e c] by (simp add: session_turns_def)
qed

text \<open>
  C1, at a store with fifteen earlier turns of user 1 with Chuck the Clown and
  a call without a session id: the ten most recent turns exist (keys 6 to 15,
  oldest first), yet the context the function builds is empty and the prompt it
  posts holds no earlier turn.
\<close>

theorem chat_without_session_drops_history:
  "map conv_id (recent_turns fifteen_turns 1 1) = [6, 7, 8, 9, 10, 11, 12, 13, 14, 15]
   \<and> previous_conversations fifteen_turns 1 chuck
        (minted_chat_id (fixed_env one_candidate) None) = []
   \<and> posted (snd (chat_with_character (fixed_env one_candidate) fifteen_turns
                ''Chuck the Clown'' (Some ''hi'') 1 None)) =
       [''You are Chuck the Clown.'' @ [CHR 0x0A] @ [CHR 0x0A] @ ''User: hi'' @ [CHR 0x0A]
          @ ''Bot:'']"
  by code_simp

text \<open>
  C4. For every character name that no stored character has, the chat function
  returns the not-found message with no session id, and the store (characters,
  turns, posted prompts) is unchanged.
\<close>

theorem chat_unknown_character:
  "n \<notin> set (map name (characters w)) \<Longrightarrow>
     chat_with_character e w n inp u c = ((''Character not found.'', None), w)"
  by (simp add: chat_with_character_def character_by_name_None)

theorem chat_unknown_character_witness:
  "''Nobody'' \<notin> set (map name (characters history_world))
   \<and> chat_with_character (fixed_env one_candidate) history_world ''Nobody'' (Some ''hi'') 1
        (Some ''s1'') = ((''Character not found.'', None), history_world)"
proof -
  have absent: "''Nobody'' \<notin> set (map name (characters history_world))"
    by (simp add: history_world_def chuck_def pirate_def)
  show ?thesis
    using absent
      chat_unknown_character[OF absent, of "fixed_env one_candidate" "Some ''hi''" 1 "Some ''s1''"]
    by simp
qed

lemma error_in_gateway_message:
  "py_in ''error'' (''An error occurred while generating content: '' @ d)"
  using py_in_middle[of "''error''" "''An ''" "'' occurred while generating content: '' @ d"]
  by simp

lemma error_in_unexpected_message:
  "py_in ''error'' (''An unexpected error occurred: '' @ d)"
  using py_in_middle[of "''error''" "''An unexpected ''" "'' occurred: '' @ d"]
  by simp

text \<open>
  C2. Let the character exist, the caller pass a non-empty session id, and the
  gateway answer the posted prompt with a status other than 200, or with status
  200 and a document that has no \<^verbatim>\<open>candidates\<close> entry or an empty one. Then
  the chat function returns a message that contains \<^verbatim>\<open>error\<close> together with
  the session id it was given, and the store is changed only by the posted
  prompt: no turn is written. (With a status other than 200 and a body that is
  not JSON, line 187 raises and the message is the one of the handler.)
\<close>

theorem chat_gateway_failure:
  assumes found: "character_by_name w n = Some ch"
    and supplied: "c \<noteq> []"
    and post: "requests_post e (full_prompt ch (session_turns w u (Some c)) inp) = Response r"
    and bad: "status_code r \<noteq> 200 \<or> json r = No_candidates \<or> json r = Candidates []"
  shows "\<exists>msg. chat_with_character e w n inp u (Some c) =
           ((msg, Some c),
            w\<lparr>posted := posted w @ [full_prompt ch (session_turns w u (Some c)) inp]\<rparr>)
         \<and> msg =
             (if status_code r = 200
                then ''An error occurred while generating content: Unexpected response format.''
              else (case json r of
                      Not_json x \<Rightarrow> ''An unexpected error occurred: '' @ str_exn x
                    | _ \<Rightarrow> ''An error occurred while generating content: ''
                             @ str_int (status_code r) @ '' - '' @ resp_text r))
         \<and> py_in ''error'' msg
         \<and> conversations (snd (chat_with_character e w n inp u (Some c))) = conversations w"
proof -
  have prev: "previous_conversations w u ch c = session_turns w u (Some c)"
    using supplied by (simp add: previous_conversations_def)
  show ?thesis
  proof (cases "status_code r = 200")
    case True
    then have "first_candidate_text (json r) = Inr None" using bad by auto
    then show ?thesis
      using found supplied post True error_in_gateway_message[of "''Unexpected response format.''"]
      by (simp add: chat_with_character_def minted_supplied generate_def prev Let_def)
  next
    case False
    then show ?thesis
      using found supplied post error_in_gateway_message error_in_unexpected_message
      by (cases "json r")
         (simp_all add: chat_with_character_def minted_supplied generate_def prev Let_def)
  qed
qed

theorem chat_gateway_failure_witness:
  "character_by_name history_world ''Chuck the Clown'' = Some chuck
   \<and> requests_post (fixed_env server_error)
        (full_prompt chuck (session_turns history_world 1 (Some ''s1'')) (Some ''hi'')) =
       server_error
   \<and> fst (chat_with_character (fixed_env server_error) history_world ''Chuck the Clown''
        (Some ''hi'') 1 (Some ''s1'')) =
       (''An error occurred while generating content: 500 - Internal Server Error'', Some ''s1'')
   \<and> conversations (snd (chat_with_character (fixed_env server_error) history_world
        ''Chuck the Clown'' (Some ''hi'') 1 (Some ''s1''))) = conversations history_world"
proof -
  let ?r = "\<lparr>status_code = 500, resp_text = ''Internal Server Error'', json = No_candidates\<rparr>"
  have found: "character_by_name history_world ''Chuck the Clown'' = Some chuck"
    by code_simp
  have supplied: "''s1'' \<noteq> []" by simp
  have post: "requests_post (fixed_env server_error)
      (full_prompt chuck (session_turns history_world 1 (Some ''s1'')) (Some ''hi'')) = Response ?r"
    by (simp add: fixed_env_def server_error_def)
  have bad: "status_code ?r \<noteq> 200 \<or> json ?r = No_candidates \<or> json ?r = Candidates []"
    by simp
  have code: "str_int 500 = ''500''" by code_simp
  show ?thesis
    using chat_gateway_failure[OF found supplied post bad] found post code
    by (auto simp: server_error_def)
qed

lemma generate_shape:
  "(\<exists>x w1. generate e w ch inp u c = (Inl x, w1)
        \<and> conversations w1 = conversations w \<and> characters w1 = characters w)
   \<or> (\<exists>d w1. generate e w ch inp u c =
          (Inr (''An error occurred while generating content: '' @ d, Some c), w1)
        \<and> conversations w1 = conversations w \<and> characters w1 = characters w)
   \<or> (\<exists>reply w1 row. generate e w ch inp u c = (Inr (reply, Some c), w1)
        \<and> conversations w1 = conversations w @ [row] \<and> characters w1 = characters w
        \<and> bot_response row = reply \<and> user_input row = inp \<and> chat_id row = Some c
        \<and> user_id row = u \<and> character_id row = char_id ch)"
proof (cases "requests_post e (full_prompt ch (previous_conversations w u ch c) inp)")
  case (Raises x)
  then show ?thesis by (simp add: generate_def Let_def)
next
  case (Response r)
  show ?thesis
  proof (cases "status_code r = 200")
    case True
    show ?thesis
    proof (cases "first_candidate_text (json r)")
      case (Inl x)
      then show ?thesis using Response True by (simp add: generate_def Let_def)
    next
      case (Inr t)
      then show ?thesis using Response True
        by (cases t) (simp_all add: generate_def Let_def save_conversation_def)
    qed
  next
    case False
    then show ?thesis using Response
      by (cases "logged_json (json r)") (simp_all add: generate_def Let_def)
  qed
qed

text \<open>
  C3. For every environment, store and argument list, the chat function
  returns a pair of a message and a session id or \<^verbatim>\<open>None\<close>; no exception
  leaves it. When the character is missing the pair is the not-found message
  and \<^verbatim>\<open>None\<close>, and the store is unchanged. Otherwise the second field is
  the session id the caller passed when that is non-empty, and a new UUID when
  it is not, and the message is one of: the handler's message for an exception
  raised while talking to the gateway, the gateway error message (in both cases
  no turn is written), or the reply of the model, stored as one new turn under
  that session id.
\<close>

theorem chat_with_character_uniform:
  "(character_by_name w n = None
      \<and> chat_with_character e w n inp u c = ((''Character not found.'', None), w))
   \<or> (\<exists>ch msg w1. character_by_name w n = Some ch
        \<and> chat_with_character e w n inp u c = ((msg, Some (minted_chat_id e c)), w1)
        \<and> minted_chat_id e c = (if truthy c then py_str c else str_uuid (uuid4 e))
        \<and> characters w1 = characters w
        \<and> ((\<exists>x. msg = ''An unexpected error occurred: '' @ str_exn x
                  \<and> conversations w1 = conversations w)
             \<or> (\<exists>d. msg = ''An error occurred while generating content: '' @ d
                  \<and> conversations w1 = conversations w)
             \<or> (\<exists>row. conversations w1 = conversations w @ [row] \<and> bot_response row = msg
                  \<and> user_input row = inp \<and> chat_id row = Some (minted_chat_id e c)
                  \<and> user_id row = u \<and> character_id row = char_id ch)))"
proof (cases "character_by_name w n")
  case None
  then show ?thesis by (simp add: chat_with_character_def)
next
  case (Some ch)
  let ?c1 = "minted_chat_id e c"
  have m: "?c1 = (if truthy c then py_str c else str_uuid (uuid4 e))"
    by (simp add: minted_chat_id_def)
  from generate_shape[of e w ch inp u ?c1]
  show ?thesis
  proof (elim disjE exE conjE)
    fix x w1
    assume "generate e w ch inp u ?c1 = (Inl x, w1)" "conversations w1 = conversations w"
      "characters w1 = characters w"
    then show ?thesis using Some m
      by (auto simp add: chat_with_character_def Let_def)
  next
    fix d w1
    assume "generate e w ch inp u ?c1 =
        (Inr (''An error occurred while generating content: '' @ d, Some ?c1), w1)"
      "conversations w1 = conversations w" "characters w1 = characters w"
    then show ?thesis using Some m
      by (auto simp add: chat_with_character_def Let_def)
  next
    fix reply w1 row
    assume "generate e w ch inp u ?c1 = (Inr (reply, Some ?c1), w1)"
      "conversations w1 = conversations w @ [row]" "characters w1 = characters w"
      "bot_response row = reply" "user_input row = inp" "chat_id row = Some ?c1"
      "user_id row = u" "character_id row = char_id ch"
    then show ?thesis using Some m
      by (auto simp add: chat_with_character_def Let_def)
  qed
qed

lemma chat_examples:
  "chat_with_character (fixed_env (Raises (Exn ''Connection refused''))) history_world
     ''Chuck the Clown'' (Some ''hi'') 1 (Some ''s1'') =
     ((''An unexpected error occurred: Connection refused'', Some ''s1''),
      history_world\<lparr>posted :=
        [full_prompt chuck (session_turns history_world 1 (Some ''s1'')) (Some ''hi'')]\<rparr>)"
  "fst (chat_with_character (fixed_env one_candidate) history_world
     ''Chuck the Clown'' (Some ''hi'') 1 None) =
     (''Honk!'', Some ''00000000-0000-0000-0000-000000000007'')"
  "fst (chat_with_character (fixed_env server_error) history_world
     ''Chuck the Clown'' (Some ''hi'') 1 (Some [])) =
     (''An error occurred while generating content: 500 - Internal Server Error'',
      Some ''00000000-0000-0000-0000-000000000007'')"
  by code_simp+

lemma py_join_Cons: "py_join sep (x # xs) = x @ concat (map (\<lambda>y. sep @ y) xs)"
  by (induction xs arbitrary: x) simp_all

lemma py_join_space: "py_join '' '' xs = spec_space_joined xs"
  by (cases xs) (simp_all add: py_join_Cons)

lemma full_prompt_spec: "full_prompt ch convs inp = spec_prompt (prompt_template ch) convs inp"
  by (simp add: full_prompt_def context_prompt_def spec_prompt_def py_join_space
        spec_turn_text_def[abs_def])

lemma posted_generate:
  "posted (snd (generate e w ch inp u c)) =
     posted w @ [full_prompt ch (previous_conversations w u ch c) inp]"
  by (simp add: generate_def Let_def save_conversation_def
           split: post_result.splits sum.splits option.splits)

lemma posted_chat:
  "character_by_name w n = Some ch \<Longrightarrow>
     posted (snd (chat_with_character e w n inp u c)) =
       posted w @ [full_prompt ch (previous_conversations w u ch (minted_chat_id e c)) inp]"
  using posted_generate[of e w ch inp u "minted_chat_id e c"]
  by (cases "generate e w ch inp u (minted_chat_id e c)")
     (auto simp: chat_with_character_def Let_def split: sum.splits)

text \<open>
  C5. For every character, list of earlier turns and new input, the prompt of
  lines 147-149 is the template, a line break, the earlier turns written
  \<^verbatim>\<open>User: {u}\nBot: {b}\<close> and joined by single spaces, then
  \<^verbatim>\<open>\nUser: {new_input}\nBot:\<close> (a null input prints as \<^verbatim>\<open>None\<close>); and
  when the character exists, the chat function hands exactly this prompt, built
  from the turns of the session in force, to \<^verbatim>\<open>requests.post\<close>.
\<close>

theorem prompt_sent_to_gateway:
  "full_prompt ch convs inp = spec_prompt (prompt_template ch) convs inp
   \<and> (character_by_name w n = Some ch' \<longrightarrow>
        posted (snd (chat_with_character e w n inp u c)) =
          posted w @ [spec_prompt (prompt_template ch')
                        (session_turns w u (Some (minted_chat_id e c))) inp])"
  by (simp add: full_prompt_spec[symmetric] posted_chat previous_is_session)

theorem prompt_sent_to_gateway_witness:
  "character_by_name history_world ''Chuck the Clown'' = Some chuck
   \<and> posted (snd (chat_with_character (fixed_env one_candidate) history_world
        ''Chuck the Clown'' (Some ''hi'') 1 (Some ''s1''))) =
       [''You are Chuck the Clown.'' @ [CHR 0x0A]
          @ ''User: tell me a joke'' @ [CHR 0x0A] @ ''Bot: Why did the chicken cross the road?''
          @ '' '' @ ''User: another one'' @ [CHR 0x0A] @ ''Bot: Honk!'' @ [CHR 0x0A]
          @ ''User: hi'' @ [CHR 0x0A] @ ''Bot:'']"
proof -
  have found: "character_by_name history_world ''Chuck the Clown'' = Some chuck"
    by code_simp
  have empty: "posted history_world = []"
    by (simp add: history_world_def)
  have prompt: "spec_prompt (prompt_template chuck)
      (session_turns history_world 1
         (Some (minted_chat_id (fixed_env one_candidate) (Some ''s1'')))) (Some ''hi'') =
       ''You are Chuck the Clown.'' @ [CHR 0x0A]
          @ ''User: tell me a joke'' @ [CHR 0x0A] @ ''Bot: Why did the chicken cross the road?''
          @ '' '' @ ''User: another one'' @ [CHR 0x0A] @ ''Bot: Honk!'' @ [CHR 0x0A]
          @ ''User: hi'' @ [CHR 0x0A] @ ''Bot:''"
    by code_simp
  show ?thesis
    using found empty prompt
      prompt_sent_to_gateway[of chuck "[]" "Some ''hi''" history_world "''Chuck the Clown''"
        chuck "fixed_env one_candidate" 1 "Some ''s1''"]
    by simp
qed

section \<open>The chat history\<close>

lemma preview_Some: "preview (Some s) = Inr (preview_text s)"
  by (auto simp: preview_def preview_text_def)

lemma preview_None: "preview None = Inl (Exn ''object of type 'NoneType' has no len()'')"
  by (simp add: preview_def)

text \<open>What the loop returns when it returns, and that it then met no null input.\<close>

lemma history_loop_Inr:
  "history_loop fmt w u ss = Inr es \<Longrightarrow>
     es = List.map_filter
            (\<lambda>(g, nm, st). case first_message w u g of None \<Rightarrow> None
               | Some m \<Rightarrow> Some (g, nm, preview_text (py_str (user_input m)), fmt st,
                                length (session_turns w u g))) ss
     \<and> (\<forall>(g, nm, st) \<in> set ss. \<forall>m. first_message w u g = Some m \<longrightarrow> user_input m \<noteq> None)"
proof (induction ss arbitrary: es)
  case Nil
  then show ?case by simp
next
  case (Cons a ss)
  obtain g nm st where a: "a = (g, nm, st)" by (cases a)
  show ?case
  proof (cases "first_message w u g")
    case None
    then show ?thesis using Cons a by (simp add: List.map_filter_simps)
  next
    case (Some m)
    note first = this
    show ?thesis
    proof (cases "user_input m")
      case None
      then show ?thesis using Cons.prems a first by (simp add: preview_None)
    next
      case (Some s)
      note s = this
      show ?thesis
      proof (cases "history_loop fmt w u ss")
        case (Inl x)
        then show ?thesis using Cons.prems a first s
          by (simp add: preview_Some Let_def)
      next
        case (Inr es')
        then show ?thesis using Cons.prems Cons.IH[OF Inr] a first s
          by (simp add: preview_Some Let_def List.map_filter_simps py_str_def)
      qed
    qed
  qed
qed

lemma history_loop_total:
  "(\<forall>(g, nm, st) \<in> set ss. \<forall>m. first_message w u g = Some m \<longrightarrow> user_input m \<noteq> None)
   \<Longrightarrow> \<exists>es. history_loop fmt w u ss = Inr es"
proof (induction ss)
  case Nil
  then show ?case by simp
next
  case (Cons a ss)
  obtain g nm st where a: "a = (g, nm, st)" by (cases a)
  from Cons obtain es where es: "history_loop fmt w u ss = Inr es" by auto
  show ?case
  proof (cases "first_message w u g")
    case None
    then show ?thesis using es a by simp
  next
    case (Some m)
    then obtain s where "user_input m = Some s" using Cons.prems a by auto
    then show ?thesis using es a Some by (simp add: preview_Some Let_def)
  qed
qed

lemma history_loop_raises:
  "history_loop fmt w u ss = Inl x \<Longrightarrow> x = Exn ''object of type 'NoneType' has no len()''"
proof (induction ss)
  case Nil
  then show ?case by simp
next
  case (Cons a ss)
  obtain g nm st where a: "a = (g, nm, st)" by (cases a)
  show ?case using Cons a
    by (auto simp: Let_def preview_def split: option.splits sum.splits)
qed

text \<open>Sorting and filtering through a map.\<close>

lemma insort_key_map: "insort_key f (g x) (map g ys) = map g (insort_key (\<lambda>y. f (g y)) x ys)"
  by (induction ys) simp_all

lemma sort_key_map: "sort_key f (map g xs) = map g (sort_key (\<lambda>y. f (g y)) xs)"
  by (induction xs) (simp_all add: insort_key_map)

lemma map_filter_all_Some:
  "\<forall>x \<in> set xs. f x \<noteq> None \<Longrightarrow> List.map_filter f xs = map (the \<circ> f) xs"
  by (induction xs) (auto simp: List.map_filter_simps)

lemma map_filter_map: "List.map_filter f (map g xs) = List.map_filter (\<lambda>x. f (g x)) xs"
  by (induction xs) (auto simp: List.map_filter_simps split: option.splits)

text \<open>The grouped query on a store whose references are intact.\<close>

lemma persona_of_intact:
  "references_intact w \<Longrightarrow> t \<in> set (conversations w) \<Longrightarrow> \<exists>ch. persona_of w t = Some ch"
  by (auto simp: references_intact_def list_all_iff)

lemma joined_rows_intact:
  assumes "references_intact w"
  shows "joined_rows w u = map (\<lambda>t. (t, the (persona_of w t))) (user_turns w u)"
proof -
  have "\<forall>t \<in> set (user_turns w u). persona_of w t \<noteq> None"
    using assms by (auto simp: references_intact_def list_all_iff user_turns_def)
  then have "\<forall>t \<in> set (user_turns w u).
      map_option (\<lambda>ch. (t, ch)) (find (\<lambda>ch. char_id ch = character_id t) (characters w)) \<noteq> None"
    by (simp add: persona_of_def)
  then show ?thesis
    unfolding joined_rows_def user_turns_def[symmetric]
    by (subst map_filter_all_Some) (auto simp: persona_of_def)
qed

lemma session_turns_user:
  "session_turns w u g = sort_key timestamp (filter (\<lambda>t. chat_id t = g) (user_turns w u))"
  by (simp add: session_turns_def user_turns_def conj_commute)

lemma group_row_intact:
  "group_row (map (\<lambda>t. (t, the (persona_of w t))) (user_turns w u)) g =
     (case first_message w u g of
        None \<Rightarrow> None
      | Some m \<Rightarrow> Some (g, name (the (persona_of w m)), timestamp m))"
proof -
  let ?P = "\<lambda>t. (t, the (persona_of w t))"
  have "sort_key (\<lambda>(t, ch). timestamp t)
          (filter (\<lambda>(t, ch). chat_id t = g) (map ?P (user_turns w u)))
        = map ?P (session_turns w u g)"
    by (simp add: filter_map comp_def sort_key_map session_turns_user)
  then show ?thesis
    by (simp add: group_row_def first_message_def split: list.splits)
qed

lemma first_message_session:
  assumes "g \<in> set (session_ids w u)"
  shows "\<exists>m. first_message w u g = Some m"
proof -
  from assms obtain t where "t \<in> set (user_turns w u)" "chat_id t = g"
    by (auto simp: session_ids_def)
  then have "t \<in> set (session_turns w u g)" by (simp add: session_turns_user)
  then show ?thesis by (cases "session_turns w u g") (auto simp: first_message_def)
qed

lemma first_message_Some:
  assumes "first_message w u g = Some m"
  shows "m \<in> set (conversations w)" "user_id m = u" "chat_id m = g"
    "g \<in> set (session_ids w u)" "\<forall>t \<in> set (session_turns w u g). timestamp m \<le> timestamp t"
proof -
  from assms obtain rest where st: "session_turns w u g = m # rest"
    by (auto simp: first_message_def split: list.splits)
  then have "m \<in> set (session_turns w u g)" by simp
  then show "m \<in> set (conversations w)" "user_id m = u" "chat_id m = g"
    by (auto simp: session_turns_def)
  then show "g \<in> set (session_ids w u)"
    by (auto simp: session_ids_def user_turns_def)
  have "sorted (map timestamp (session_turns w u g))"
    by (simp add: session_turns_def sorted_sort_key)
  then show "\<forall>t \<in> set (session_turns w u g). timestamp m \<le> timestamp t"
    using st by auto
qed

lemma first_input_not_null:
  assumes "list_all (\<lambda>t. user_input t \<noteq> None) (user_turns w u)"
  shows "\<forall>g m. first_message w u g = Some m \<longrightarrow> user_input m \<noteq> None"
proof (intro allI impI)
  fix g m
  assume "first_message w u g = Some m"
  then have "m \<in> set (user_turns w u)"
    using first_message_Some(1,2) by (simp add: user_turns_def)
  then show "user_input m \<noteq> None" using assms by (simp add: list_all_iff)
qed

lemma session_ids_set:
  "set (session_ids w u) = chat_id ` {t \<in> set (conversations w). user_id t = u}"
  by (auto simp: session_ids_def user_turns_def)

lemma session_start_least:
  assumes "t \<in> set (conversations w)" "user_id t = u" "chat_id t = g"
  shows "session_start w u g \<le> timestamp t"
proof -
  have mem: "t \<in> set (session_turns w u g)" using assms by (simp add: session_turns_def)
  then obtain m where m: "first_message w u g = Some m"
    by (cases "session_turns w u g") (auto simp: first_message_def)
  from first_message_Some(5)[OF m] mem show ?thesis by (simp add: session_start_def m)
qed

lemma chat_sessions_intact:
  assumes "references_intact w"
  shows "chat_sessions w u =
           map (session_row w u) (rev (sort_key (session_start w u) (session_ids w u)))"
proof -
  let ?P = "\<lambda>t. (t, the (persona_of w t))"
  have keys: "remdups (map (\<lambda>(t, ch). chat_id t) (map ?P (user_turns w u))) = session_ids w u"
    by (simp add: session_ids_def comp_def)
  have "\<forall>g \<in> set (session_ids w u). group_row (map ?P (user_turns w u)) g \<noteq> None"
    using first_message_session by (fastforce simp: group_row_intact)
  then have "List.map_filter (group_row (map ?P (user_turns w u))) (session_ids w u)
      = map (the \<circ> group_row (map ?P (user_turns w u))) (session_ids w u)"
    by (rule map_filter_all_Some)
  also have "\<dots> = map (session_row w u) (session_ids w u)"
  proof (rule map_cong[OF refl])
    fix g assume "g \<in> set (session_ids w u)"
    then obtain m where "first_message w u g = Some m" using first_message_session by blast
    then show "(the \<circ> group_row (map ?P (user_turns w u))) g = session_row w u g"
      by (simp add: group_row_intact session_row_def session_start_def)
  qed
  finally have groups: "List.map_filter (group_row (map ?P (user_turns w u))) (session_ids w u)
      = map (session_row w u) (session_ids w u)" .
  have key: "(\<lambda>y. (\<lambda>(g, n, start_time). start_time) (session_row w u y)) = session_start w u"
    by (auto simp: session_row_def)
  have "chat_sessions w u =
      rev (sort_key (\<lambda>(g, n, start_time). start_time)
        (List.map_filter (group_row (map ?P (user_turns w u)))
          (remdups (map (\<lambda>(t, ch). chat_id t) (map ?P (user_turns w u))))))"
    by (simp only: chat_sessions_def Let_def joined_rows_intact[OF assms])
  also have "\<dots> = rev (sort_key (\<lambda>(g, n, start_time). start_time)
        (map (session_row w u) (session_ids w u)))"
    by (simp only: keys groups)
  also have "\<dots> = map (session_row w u) (rev (sort_key (session_start w u) (session_ids w u)))"
    by (simp only: sort_key_map key rev_map)
  finally show ?thesis .
qed

lemma get_chat_history_closed:
  assumes intact: "references_intact w"
    and nonnull: "\<forall>g m. first_message w u g = Some m \<longrightarrow> user_input m \<noteq> None"
  shows "get_chat_history fmt w u =
           Inr (List.map_filter (session_entry fmt w u)
                  (rev (sort_key (session_start w u) (session_ids w u))))"
    and "\<forall>g \<in> set (session_ids w u). \<exists>e. session_entry fmt w u g = Some e \<and> fst e = g"
proof -
  let ?ks = "rev (sort_key (session_start w u) (session_ids w u))"
  show all: "\<forall>g \<in> set (session_ids w u). \<exists>e. session_entry fmt w u g = Some e \<and> fst e = g"
  proof
    fix g assume "g \<in> set (session_ids w u)"
    then obtain m where m: "first_message w u g = Some m" using first_message_session by blast
    then obtain ch where ch: "persona_of w m = Some ch"
      using persona_of_intact[OF intact] first_message_Some(1) by blast
    from m nonnull obtain s where s: "user_input m = Some s" by auto
    show "\<exists>e. session_entry fmt w u g = Some e \<and> fst e = g"
      by (simp add: session_entry_def m ch s)
  qed
  have "\<forall>(g, nm, st) \<in> set (chat_sessions w u).
          \<forall>m. first_message w u g = Some m \<longrightarrow> user_input m \<noteq> None"
    using nonnull by auto
  from history_loop_total[OF this]
  obtain es where es: "history_loop fmt w u (chat_sessions w u) = Inr es"
    by blast
  have "es = List.map_filter
            (\<lambda>(g, nm, st). case first_message w u g of None \<Rightarrow> None
               | Some m \<Rightarrow> Some (g, nm, preview_text (py_str (user_input m)), fmt st,
                                length (session_turns w u g))) (chat_sessions w u)"
    using history_loop_Inr[OF es] by blast
  also have "\<dots> = List.map_filter (session_entry fmt w u) ?ks"
    unfolding chat_sessions_intact[OF intact] map_filter_map
  proof (rule arg_cong[where f = "\<lambda>f. List.map_filter f ?ks"], rule ext)
    fix g
    show "(case session_row w u g of (g, nm, st) \<Rightarrow> case first_message w u g of None \<Rightarrow> None
               | Some m \<Rightarrow> Some (g, nm, preview_text (py_str (user_input m)), fmt st,
                                length (session_turns w u g))) = session_entry fmt w u g"
    proof (cases "first_message w u g")
      case None
      then show ?thesis by (simp add: session_row_def session_entry_def)
    next
      case (Some m)
      then obtain ch where ch: "persona_of w m = Some ch"
        using persona_of_intact[OF intact] first_message_Some(1) by blast
      from Some nonnull obtain s where s: "user_input m = Some s" by auto
      show ?thesis
        by (simp add: session_row_def session_entry_def Some ch s session_start_def py_str_def)
    qed
  qed
  finally show "get_chat_history fmt w u = Inr (List.map_filter (session_entry fmt w u) ?ks)"
    using es by (simp add: get_chat_history_def)
qed

lemma history_example:
  "get_chat_history str_nat history_world 1 =
     Inr [(Some ''s2'', ''Sarcastic Pirate'', ''where is the treasure buried o...'', ''15'', 1),
          (Some ''s1'', ''Chuck the Clown'', ''tell me a joke'', ''10'', 2)]"
  by code_simp

lemma history_world_intact: "references_intact history_world"
  by code_simp

lemma silent_world_intact: "references_intact silent_world"
  by code_simp

lemma silent_world_first:
  "first_message silent_world 2 (Some ''00000000-0000-0000-0000-000000000007'') =
     Some \<lparr>conv_id = 4, character_id = 1, user_input = None, bot_response = ''Honk!'',
           timestamp = 100, chat_id = Some ''00000000-0000-0000-0000-000000000007'',
           user_id = 2\<rparr>"
  by code_simp

text \<open>
  The two functions that write to the store keep the references intact.
\<close>

lemma references_intact_same:
  "characters w1 = characters w \<Longrightarrow> conversations w1 = conversations w \<Longrightarrow>
     references_intact w1 = references_intact w"
  by (simp add: references_intact_def persona_of_def)

lemma references_intact_snoc:
  "characters w1 = characters w \<Longrightarrow> conversations w1 = conversations w @ [row] \<Longrightarrow>
     references_intact w \<Longrightarrow> persona_of w row \<noteq> None \<Longrightarrow> references_intact w1"
  by (simp add: references_intact_def persona_of_def)

lemma character_by_name_mem:
  "character_by_name w n = Some ch \<Longrightarrow> ch \<in> set (characters w)"
  by (auto simp: character_by_name_def find_Some_iff)

lemma persona_of_stored:
  assumes "ch \<in> set (characters w)" "character_id t = char_id ch"
  shows "persona_of w t \<noteq> None"
  using assms by (auto simp: persona_of_def find_None_iff)

lemma chat_keeps_references:
  assumes intact: "references_intact w"
  shows "references_intact (snd (chat_with_character e w n inp u c))"
proof (cases "character_by_name w n")
  case None
  then show ?thesis using intact by (simp add: chat_with_character_def)
next
  case (Some ch)
  let ?c1 = "minted_chat_id e c"
  obtain r w1 where g: "generate e w ch inp u ?c1 = (r, w1)"
    by (cases "generate e w ch inp u ?c1")
  have out: "snd (chat_with_character e w n inp u c) = w1"
    using Some g by (cases r) (simp_all add: chat_with_character_def Let_def)
  from generate_shape[of e w ch inp u ?c1] g
  consider "conversations w1 = conversations w" "characters w1 = characters w"
    | row where "conversations w1 = conversations w @ [row]" "characters w1 = characters w"
        "character_id row = char_id ch"
    by auto
  then show ?thesis
  proof cases
    case 1
    then show ?thesis using intact references_intact_same[of w1 w] out by simp
  next
    case 2
    have "persona_of w row \<noteq> None"
      using persona_of_stored[OF character_by_name_mem[OF Some] 2(3)] .
    then show ?thesis
      using references_intact_snoc[OF 2(2) 2(1) intact] out by simp
  qed
qed

lemma find_append_Some: "find P xs \<noteq> None \<Longrightarrow> find P (xs @ ys) \<noteq> None"
  by (induction xs) auto

lemma add_character_keeps_references:
  assumes "references_intact w"
  shows "references_intact (snd (add_character w n d p))"
proof (cases "character_by_name w n")
  case None
  let ?c = "\<lparr>char_id = new_id (map char_id (characters w)), name = n,
             description = d, prompt_template = p\<rparr>"
  have w1: "snd (add_character w n d p) = w\<lparr>characters := characters w @ [?c]\<rparr>"
    using None by (simp add: add_character_def)
  have "\<forall>t \<in> set (conversations w).
      persona_of (w\<lparr>characters := characters w @ [?c]\<rparr>) t \<noteq> None"
  proof (intro ballI)
    fix t assume "t \<in> set (conversations w)"
    then have "find (\<lambda>ch. char_id ch = character_id t) (characters w) \<noteq> None"
      using assms by (simp add: references_intact_def list_all_iff persona_of_def)
    then have "find (\<lambda>ch. char_id ch = character_id t) (characters w @ [?c]) \<noteq> None"
      by (rule find_append_Some)
    then show "persona_of (w\<lparr>characters := characters w @ [?c]\<rparr>) t \<noteq> None"
      by (simp add: persona_of_def)
  qed
  then show ?thesis
    unfolding w1 by (simp add: references_intact_def list_all_iff)
next
  case (Some c)
  then show ?thesis using assms by (simp add: add_character_def)
qed

text \<open>
  C9, as the code has it. Let every turn refer to a stored character, and let
  the earliest turn of each session of the user have an input that is not null.
  Then the history of the user is a list with exactly one entry for each
  distinct \<^verbatim>\<open>chat_id\<close> among the turns of the user. The entry of a session
  holds the name of the character of its earliest turn, the preview of that
  turn's input, the formatted time stamp of that turn, which is the smallest
  time stamp of the session, and the number of turns of the session. The
  entries are ordered by session start, latest first.
\<close>

theorem get_chat_history_sessions:
  assumes intact: "references_intact w"
    and nonnull: "\<forall>g m. first_message w u g = Some m \<longrightarrow> user_input m \<noteq> None"
  shows "\<exists>es. get_chat_history fmt w u = Inr es
     \<and> distinct (map fst es)
     \<and> set (map fst es) = chat_id ` {t \<in> set (conversations w). user_id t = u}
     \<and> (\<forall>e \<in> set es. session_entry fmt w u (fst e) = Some e)
     \<and> (\<forall>e \<in> set es. \<forall>t \<in> set (conversations w).
           user_id t = u \<and> chat_id t = fst e \<longrightarrow> session_start w u (fst e) \<le> timestamp t)
     \<and> sorted_wrt (\<lambda>a b. session_start w u (fst b) \<le> session_start w u (fst a)) es"
proof -
  let ?ks = "rev (sort_key (session_start w u) (session_ids w u))"
  let ?E = "the \<circ> session_entry fmt w u"
  let ?es = "map ?E ?ks"
  note closed = get_chat_history_closed[OF intact nonnull, of fmt]
  have some: "\<forall>g \<in> set ?ks. session_entry fmt w u g \<noteq> None" using closed(2) by auto
  have es: "get_chat_history fmt w u = Inr ?es"
    using closed(1) map_filter_all_Some[OF some] by simp
  have fst_E: "\<forall>g \<in> set ?ks. fst (?E g) = g" using closed(2) by auto
  then have "map (\<lambda>g. fst (?E g)) ?ks = ?ks" by (intro map_idI) auto
  then have fsts: "map fst ?es = ?ks" by (simp add: comp_def)
  have d: "distinct (map fst ?es)" unfolding fsts by (simp add: session_ids_def)
  have s: "set (map fst ?es) = chat_id ` {t \<in> set (conversations w). user_id t = u}"
    unfolding fsts by (simp add: session_ids_set)
  have en: "\<forall>e \<in> set ?es. session_entry fmt w u (fst e) = Some e"
    using closed(2) by auto
  have least: "\<forall>e \<in> set ?es. \<forall>t \<in> set (conversations w).
           user_id t = u \<and> chat_id t = fst e \<longrightarrow> session_start w u (fst e) \<le> timestamp t"
    using session_start_least by blast
  have "sorted (map (session_start w u) (sort_key (session_start w u) (session_ids w u)))"
    by (rule sorted_sort_key)
  then have "sorted_wrt (\<lambda>a b. session_start w u b \<le> session_start w u a) ?ks"
    by (simp add: sorted_wrt_rev sorted_map)
  then have "sorted_wrt
      (\<lambda>a b. session_start w u (fst (?E b)) \<le> session_start w u (fst (?E a))) ?ks"
    using fst_E by (auto intro: sorted_wrt_mono_rel[rotated])
  then have so: "sorted_wrt (\<lambda>a b. session_start w u (fst b) \<le> session_start w u (fst a)) ?es"
    by (simp add: sorted_wrt_map)
  show ?thesis using es d s en least so by blast
qed

theorem get_chat_history_sessions_witness:
  "references_intact history_world
   \<and> list_all (\<lambda>t. user_input t \<noteq> None) (user_turns history_world 1)
   \<and> get_chat_history str_nat history_world 1 =
       Inr [(Some ''s2'', ''Sarcastic Pirate'', ''where is the treasure buried o...'', ''15'', 1),
            (Some ''s1'', ''Chuck the Clown'', ''tell me a joke'', ''10'', 2)]
   \<and> session_entry str_nat history_world 1 (Some ''s1'') =
       Some (Some ''s1'', ''Chuck the Clown'', ''tell me a joke'', ''10'', 2)"
proof -
  have inputs: "list_all (\<lambda>t. user_input t \<noteq> None) (user_turns history_world 1)"
    by code_simp
  from get_chat_history_sessions[OF history_world_intact first_input_not_null[OF inputs],
      of str_nat]
  obtain es where es: "get_chat_history str_nat history_world 1 = Inr es"
    and entries: "\<forall>e \<in> set es. session_entry str_nat history_world 1 (fst e) = Some e"
    by blast
  from es have "es = [(Some ''s2'', ''Sarcastic Pirate'', ''where is the treasure buried o...'',
      ''15'', 1), (Some ''s1'', ''Chuck the Clown'', ''tell me a joke'', ''10'', 2)]"
    by (simp add: history_example)
  with entries have "session_entry str_nat history_world 1 (Some ''s1'') =
       Some (Some ''s1'', ''Chuck the Clown'', ''tell me a joke'', ''10'', 2)"
    by simp
  then show ?thesis
    using history_world_intact inputs history_example by simp
qed

text \<open>
  C9 as stated fails where a session starts with a turn without input. In the
  store that the chat function leaves after user 2 has sent \<^verbatim>\<open>None\<close>, user 2
  has one session, and the history function raises instead of returning its
  entry.
\<close>

theorem get_chat_history_sessions_counterexample:
  "references_intact silent_world
   \<and> session_ids silent_world 2 = [Some ''00000000-0000-0000-0000-000000000007'']
   \<and> get_chat_history str_nat silent_world 2 =
       Inl (Exn ''object of type 'NoneType' has no len()'')"
  by code_simp

text \<open>
  C10. The column \<^verbatim>\<open>user_input\<close> may be null, and line 263 takes the length
  of the first input of every session. On a store whose references are intact:
  if the earliest turn of some session of the user has a null input, the
  history function raises \<^verbatim>\<open>TypeError\<close> and returns nothing; if the earliest
  turn of every session of the user has an input, it returns a list.
\<close>

theorem get_chat_history_null_preview:
  assumes intact: "references_intact w"
  shows "((\<exists>g m. first_message w u g = Some m \<and> user_input m = None) \<longrightarrow>
            get_chat_history fmt w u = Inl (Exn ''object of type 'NoneType' has no len()''))
       \<and> ((\<forall>g m. first_message w u g = Some m \<longrightarrow> user_input m \<noteq> None) \<longrightarrow>
            (\<exists>es. get_chat_history fmt w u = Inr es))"
proof (intro conjI impI)
  assume "\<exists>g m. first_message w u g = Some m \<and> user_input m = None"
  then obtain g m where m: "first_message w u g = Some m" "user_input m = None" by blast
  then have "g \<in> set (session_ids w u)" using first_message_Some(4) by blast
  then have mem: "session_row w u g \<in> set (chat_sessions w u)"
    by (simp add: chat_sessions_intact[OF intact])
  show "get_chat_history fmt w u = Inl (Exn ''object of type 'NoneType' has no len()'')"
  proof (cases "history_loop fmt w u (chat_sessions w u)")
    case (Inl x)
    then show ?thesis using history_loop_raises[OF Inl] by (simp add: get_chat_history_def)
  next
    case (Inr es)
    from history_loop_Inr[OF Inr] mem m have False
      by (auto simp: session_row_def)
    then show ?thesis ..
  qed
next
  assume "\<forall>g m. first_message w u g = Some m \<longrightarrow> user_input m \<noteq> None"
  then have "\<forall>(g, nm, st) \<in> set (chat_sessions w u).
          \<forall>m. first_message w u g = Some m \<longrightarrow> user_input m \<noteq> None" by auto
  from history_loop_total[OF this] show "\<exists>es. get_chat_history fmt w u = Inr es"
    by (simp add: get_chat_history_def)
qed

theorem get_chat_history_null_preview_witness:
  "references_intact silent_world
   \<and> map user_input
        (session_turns silent_world 2 (Some ''00000000-0000-0000-0000-000000000007'')) = [None]
   \<and> get_chat_history str_nat silent_world 2 =
       Inl (Exn ''object of type 'NoneType' has no len()'')
   \<and> list_all (\<lambda>t. user_input t \<noteq> None) (user_turns silent_world 1)
   \<and> (\<exists>es. get_chat_history str_nat silent_world 1 = Inr es)"
proof -
  have "user_input \<lparr>conv_id = 4, character_id = 1, user_input = None, bot_response = ''Honk!'',
           timestamp = 100, chat_id = Some ''00000000-0000-0000-0000-000000000007'',
           user_id = 2\<rparr> = None"
    by simp
  with silent_world_first
  have null: "\<exists>g m. first_message silent_world 2 g = Some m \<and> user_input m = None"
    by blast
  have turns: "map user_input
        (session_turns silent_world 2 (Some ''00000000-0000-0000-0000-000000000007'')) = [None]"
    by code_simp
  have inputs: "list_all (\<lambda>t. user_input t \<noteq> None) (user_turns silent_world 1)"
    by code_simp
  have raises: "get_chat_history str_nat silent_world 2 =
       Inl (Exn ''object of type 'NoneType' has no len()'')"
    using get_chat_history_null_preview[OF silent_world_intact, of 2 str_nat] null by blast
  have returns: "\<exists>es. get_chat_history str_nat silent_world 1 = Inr es"
    using get_chat_history_null_preview[OF silent_world_intact, of 1 str_nat]
      first_input_not_null[OF inputs] by blast
  show ?thesis
    using silent_world_intact turns raises inputs returns by simp
qed

text \<open>
  C6. For every input string, line 263 yields the string itself when it has at
  most 30 characters and its first 30 characters followed by three dots when it
  is longer; and in every list the history function returns, the preview of an
  entry is this function of the input of the earliest turn of the entry's
  session.
\<close>

theorem preview_truncation:
  "preview (Some s) = Inr (if length s \<le> 30 then s else take 30 s @ ''...'')
   \<and> (get_chat_history fmt w u = Inr es \<longrightarrow>
        (\<forall>e \<in> set es. \<exists>m s'. first_message w u (fst e) = Some m \<and> user_input m = Some s'
            \<and> fst (snd (snd e)) = (if length s' \<le> 30 then s' else take 30 s' @ ''...'')))"
proof (intro conjI impI ballI)
  show "preview (Some s) = Inr (if length s \<le> 30 then s else take 30 s @ ''...'')"
    by (simp add: preview_Some preview_text_def)
next
  fix e
  assume ok: "get_chat_history fmt w u = Inr es" and e: "e \<in> set es"
  from ok have loop: "history_loop fmt w u (chat_sessions w u) = Inr es"
    by (simp add: get_chat_history_def)
  note h = history_loop_Inr[OF loop]
  from h e obtain g nm st where gin: "(g, nm, st) \<in> set (chat_sessions w u)"
    and some: "(case first_message w u g of None \<Rightarrow> None
               | Some m \<Rightarrow> Some (g, nm, preview_text (py_str (user_input m)), fmt st,
                                length (session_turns w u g))) = Some e"
    by (auto simp: List.map_filter_def)
  then obtain m where m: "first_message w u g = Some m"
    and e_eq: "e = (g, nm, preview_text (py_str (user_input m)), fmt st,
                    length (session_turns w u g))"
    by (auto split: option.splits)
  from h gin m obtain s' where s': "user_input m = Some s'" by fastforce
  show "\<exists>m s'. first_message w u (fst e) = Some m \<and> user_input m = Some s'
            \<and> fst (snd (snd e)) = (if length s' \<le> 30 then s' else take 30 s' @ ''...'')"
    using m s' e_eq by (simp add: preview_text_def py_str_def)
qed

theorem preview_truncation_witness:
  "get_chat_history str_nat history_world 1 =
     Inr [(Some ''s2'', ''Sarcastic Pirate'', ''where is the treasure buried o...'', ''15'', 1),
          (Some ''s1'', ''Chuck the Clown'', ''tell me a joke'', ''10'', 2)]
   \<and> preview (Some ''where is the treasure buried on the island?'') =
       Inr ''where is the treasure buried o...''
   \<and> preview (Some ''tell me a joke'') = Inr ''tell me a joke''
   \<and> map_option user_input (first_message history_world 1 (Some ''s2'')) =
       Some (Some ''where is the treasure buried on the island?'')"
proof -
  let ?es = "[(Some ''s2'', ''Sarcastic Pirate'', ''where is the treasure buried o...'', ''15'', 1),
          (Some ''s1'', ''Chuck the Clown'', ''tell me a joke'', ''10'', 2::nat)]"
  have long: "preview (Some ''where is the treasure buried on the island?'') =
       Inr ''where is the treasure buried o...''"
    using preview_truncation[of "''where is the treasure buried on the island?''"
        str_nat history_world 1 ?es]
    by simp
  have short: "preview (Some ''tell me a joke'') = Inr ''tell me a joke''"
    using preview_truncation[of "''tell me a joke''" str_nat history_world 1 ?es]
    by simp
  have first: "map_option user_input (first_message history_world 1 (Some ''s2'')) =
       Some (Some ''where is the treasure buried on the island?'')"
    by code_simp
  show ?thesis using history_example long short first by simp
qed

end
